theory Spec2Isabelle
  imports Complex_Main "HOL-Library.AList"
begin

section \<open>JavaScript numbers and strings\<close>

text \<open>
  A JavaScript \<^verbatim>\<open>number\<close> is modelled as a rational, or one of the three non-finite
  values. Finite arithmetic is exact: the rounding of binary64 is not part of this model
  (and neither is the negative zero, which the code never tells from zero).
\<close>

datatype jsnum = NaN | PosInf | NegInf | Fin rat

definition isNaN :: "jsnum \<Rightarrow> bool" where
  "isNaN x = (x = NaN)"

text \<open>The operator \<^verbatim>\<open>*\<close> of JavaScript.\<close>

fun jmul :: "jsnum \<Rightarrow> jsnum \<Rightarrow> jsnum" where
  "jmul NaN y = NaN"
| "jmul x NaN = NaN"
| "jmul (Fin a) (Fin b) = Fin (a * b)"
| "jmul (Fin a) PosInf = (if a = 0 then NaN else if 0 < a then PosInf else NegInf)"
| "jmul (Fin a) NegInf = (if a = 0 then NaN else if 0 < a then NegInf else PosInf)"
| "jmul PosInf (Fin b) = (if b = 0 then NaN else if 0 < b then PosInf else NegInf)"
| "jmul NegInf (Fin b) = (if b = 0 then NaN else if 0 < b then NegInf else PosInf)"
| "jmul PosInf PosInf = PosInf"
| "jmul PosInf NegInf = NegInf"
| "jmul NegInf PosInf = NegInf"
| "jmul NegInf NegInf = PosInf"

text \<open>
  \<^verbatim>\<open>dims.width / dims.height\<close> on the natural pixel sizes of an image, which are
  unsigned integers: a zero height gives Infinity, or NaN when the width is zero too.
\<close>

definition imgRatio :: "nat \<Rightarrow> nat \<Rightarrow> jsnum" where
  "imgRatio w h =
     (if h = 0 then (if w = 0 then NaN else PosInf) else Fin (of_nat w / of_nat h))"

text \<open>
  \<^verbatim>\<open>parseFloat(x.toFixed(2))\<close>. \<^verbatim>\<open>toFixed\<close> prints a non-finite value by name and
  a value of magnitude \<open>10\<^sup>2\<^sup>1\<close> or more in full, and \<^verbatim>\<open>parseFloat\<close> reads both back
  unchanged; any other value is printed as the integer \<open>n\<close> for which \<open>n / 100\<close> is
  closest to its magnitude (the larger \<open>n\<close> on a tie), with the sign in front.
\<close>

fun round2 :: "jsnum \<Rightarrow> jsnum" where
  "round2 (Fin x) =
     (if 10 ^ 21 \<le> \<bar>x\<bar> then Fin x
      else Fin (sgn x * of_int \<lfloor>\<bar>x\<bar> * 100 + 1 / 2\<rfloor> / 100))"
| "round2 x = x"


text \<open>
  The truth value of a \<^verbatim>\<open>string | null | undefined\<close>: only a string that is not
  empty is true. \<open>None\<close> stands for \<^verbatim>\<open>null\<close> and for \<^verbatim>\<open>undefined\<close>, which no
  test of the program tells apart.
\<close>

fun truthyStr :: "string option \<Rightarrow> bool" where
  "truthyStr None = False"
| "truthyStr (Some u) = (u \<noteq> [])"

subsection \<open>parseFloat\<close>

text \<open>
  \<^verbatim>\<open>parseFloat\<close> as ECMAScript defines it: leading white space is dropped, and the
  longest prefix of the rest that is a \<^verbatim>\<open>StrDecimalLiteral\<close> (an optional sign, then
  \<^verbatim>\<open>Infinity\<close> or decimal digits with an optional fraction and an optional exponent)
  is the value; with no such prefix the result is NaN. Characters are bytes here, so the
  white space is the ASCII one; the value is the exact decimal value of the literal.
\<close>

definition isWhiteSpace :: "char \<Rightarrow> bool" where
  "isWhiteSpace c = (of_char c \<in> {9, 10, 11, 12, 13, 32 :: nat})"

definition isDigit :: "char \<Rightarrow> bool" where
  "isDigit c = (48 \<le> (of_char c :: nat) \<and> (of_char c :: nat) \<le> 57)"

definition digitsVal :: "string \<Rightarrow> nat" where
  "digitsVal ds = foldl (\<lambda>a c. 10 * a + (of_char c - 48)) 0 ds"

text \<open>The sign of a literal: whether it is negative, and the text after the sign.\<close>

fun signOf :: "string \<Rightarrow> bool \<times> string" where
  "signOf [] = (False, [])"
| "signOf (c # r) =
     (if c = CHR ''-'' then (True, r) else if c = CHR ''+'' then (False, r) else (False, c # r))"

text \<open>The exponent part, when the text starts with one; otherwise 0.\<close>

definition exponentOf :: "string \<Rightarrow> int" where
  "exponentOf r =
     (case r of
        [] \<Rightarrow> 0
      | c # r1 \<Rightarrow>
          if c = CHR ''e'' \<or> c = CHR ''E'' then
            (let (neg, r2) = signOf r1; ds = takeWhile isDigit r2
             in if ds = [] then 0
                else if neg then - int (digitsVal ds) else int (digitsVal ds))
          else 0)"

definition scale10 :: "rat \<Rightarrow> int \<Rightarrow> rat" where
  "scale10 m e = (if 0 \<le> e then m * 10 ^ nat e else m / 10 ^ nat (- e))"

definition parseFloat :: "string \<Rightarrow> jsnum" where
  "parseFloat s =
     (let (neg, u) = signOf (dropWhile isWhiteSpace s)
      in if take 8 u = ''Infinity'' then (if neg then NegInf else PosInf)
         else
           (let ip = takeWhile isDigit u;
                r1 = dropWhile isDigit u;
                hasDot = (case r1 of [] \<Rightarrow> False | c # _ \<Rightarrow> c = CHR ''.'');
                fp = (if hasDot then takeWhile isDigit (tl r1) else []);
                r2 = (if hasDot then dropWhile isDigit (tl r1) else r1)
            in if ip = [] \<and> fp = [] then NaN
               else
                 (let m = scale10
                            (of_nat (digitsVal ip) + of_nat (digitsVal fp) / 10 ^ length fp)
                            (exponentOf r2)
                  in Fin (if neg then - m else m))))"

section \<open>The data of the application (types.ts)\<close>

datatype ShapeType = CUBE | SPHERE | BAG

record ShapeDimensions =
  width :: jsnum
  height :: jsnum
  depth :: jsnum
  diameter :: jsnum

text \<open>\<^verbatim>\<open>keyof ShapeDimensions\<close>\<close>

datatype DimKey = Width | Height | Depth | Diameter

definition DEFAULT_DIMENSIONS :: ShapeDimensions where
  "DEFAULT_DIMENSIONS = \<lparr>width = Fin 10, height = Fin 10, depth = Fin 10, diameter = Fin 10\<rparr>"

text \<open>
  \<^verbatim>\<open>FaceTextures\<close> is an object from face keys to \<^verbatim>\<open>string | null\<close>: an association
  list in the order of insertion, which is the order \<^verbatim>\<open>Object.values\<close> follows.
  Reading a key gives its string, or \<open>None\<close> when the key is absent or holds \<^verbatim>\<open>null\<close>.
\<close>

type_synonym FaceTextures = "(string \<times> string option) list"

definition objGet :: "FaceTextures \<Rightarrow> string \<Rightarrow> string option" where
  "objGet t k = (case map_of t k of Some (Some u) \<Rightarrow> Some u | _ \<Rightarrow> None)"


text \<open>The values of an object that are strings (\<^verbatim>\<open>typeof url === 'string'\<close>).\<close>

definition stringValues :: "FaceTextures \<Rightarrow> string list" where
  "stringValues t = concat (map (\<lambda>(k, v). case v of None \<Rightarrow> [] | Some u \<Rightarrow> [u]) t)"

section \<open>The scene (components/SceneViewer.tsx)\<close>

record MaterialProps =
  color :: string
  roughness :: rat
  metalness :: rat

definition getMaterialProps :: "bool \<Rightarrow> MaterialProps" where
  "getMaterialProps showEnv =
     \<lparr>color = ''#ffffff'',
      roughness = (if showEnv then 2 / 10 else 1),
      metalness = (if showEnv then 1 / 10 else 0)\<rparr>"

text \<open>
  A \<^verbatim>\<open>meshStandardMaterial\<close> element: the slot it attaches to, the URL of its texture
  map when it has one, and its properties.
\<close>

record Material =
  attach :: "string option"
  texture :: "string option"
  props :: MaterialProps

definition TextureMaterial :: "string \<Rightarrow> string option \<Rightarrow> bool \<Rightarrow> Material" where
  "TextureMaterial url att showEnv =
     \<lparr>attach = att, texture = Some url, props = getMaterialProps showEnv\<rparr>"

definition FaceMaterial :: "string option \<Rightarrow> string option \<Rightarrow> bool \<Rightarrow> Material" where
  "FaceMaterial url att showEnv =
     (case url of
        Some u \<Rightarrow>
          if u \<noteq> [] then TextureMaterial u att showEnv
          else \<lparr>attach = att, texture = None, props = getMaterialProps showEnv\<rparr>
      | None \<Rightarrow> \<lparr>attach = att, texture = None, props = getMaterialProps showEnv\<rparr>)"

text \<open>A mesh with a box geometry: the three arguments of the box and its materials.\<close>

record BoxMesh =
  boxArgs :: "jsnum \<times> jsnum \<times> jsnum"
  materials :: "Material list"

definition sceneScale :: jsnum where
  "sceneScale = Fin (1 / 10)"

definition CubeModel :: "ShapeDimensions \<Rightarrow> FaceTextures \<Rightarrow> bool \<Rightarrow> BoxMesh" where
  "CubeModel dims tex showEnv =
     \<lparr>boxArgs = (jmul (width dims) sceneScale, jmul (height dims) sceneScale,
                 jmul (depth dims) sceneScale),
      materials =
        [FaceMaterial (objGet tex ''right'') (Some ''material-0'') showEnv,
         FaceMaterial (objGet tex ''left'') (Some ''material-1'') showEnv,
         FaceMaterial (objGet tex ''top'') (Some ''material-2'') showEnv,
         FaceMaterial (objGet tex ''bottom'') (Some ''material-3'') showEnv,
         FaceMaterial (objGet tex ''front'') (Some ''material-4'') showEnv,
         FaceMaterial (objGet tex ''back'') (Some ''material-5'') showEnv]\<rparr>"

text \<open>
  The body of the bag (the first mesh of \<^verbatim>\<open>BagModel\<close>); its two handles are six further
  meshes of one fixed material, which do not read the textures.
\<close>

definition BagModel :: "ShapeDimensions \<Rightarrow> FaceTextures \<Rightarrow> bool \<Rightarrow> BoxMesh" where
  "BagModel dims tex showEnv =
     \<lparr>boxArgs = (jmul (width dims) sceneScale, jmul (height dims) sceneScale,
                 jmul (depth dims) sceneScale),
      materials =
        [FaceMaterial (objGet tex ''right'') (Some ''material-0'') showEnv,
         FaceMaterial (objGet tex ''left'') (Some ''material-1'') showEnv,
         FaceMaterial None (Some ''material-2'') showEnv,
         FaceMaterial (objGet tex ''bottom'') (Some ''material-3'') showEnv,
         FaceMaterial (objGet tex ''front'') (Some ''material-4'') showEnv,
         FaceMaterial (objGet tex ''back'') (Some ''material-5'') showEnv]\<rparr>"

section \<open>The state of the application and its handlers (App.tsx)\<close>

text \<open>
  The state holds the four values the handlers below read and write, and two logs of
  what they do to the world outside: every call of \<^verbatim>\<open>URL.revokeObjectURL\<close> and every
  call of \<^verbatim>\<open>console.warn\<close>, oldest first. (The full-screen and side-bar flags are
  left out: no handler below reads or writes them.)
\<close>

record AppState =
  selectedShape :: ShapeType
  dimensions :: ShapeDimensions
  showEnvironment :: bool
  textures :: FaceTextures
  revoked :: "string list"
  warnings :: "string list"

definition initialState :: AppState where
  "initialState =
     \<lparr>selectedShape = CUBE, dimensions = DEFAULT_DIMENSIONS, showEnvironment = False,
      textures = [], revoked = [], warnings = []\<rparr>"

definition handleShapeChange :: "ShapeType \<Rightarrow> AppState \<Rightarrow> AppState" where
  "handleShapeChange shape st = st\<lparr>selectedShape := shape\<rparr>"

text \<open>
  The two earlier versions of the application have the same \<^verbatim>\<open>handleShapeChange\<close> and,
  next to it, an effect on \<^verbatim>\<open>[selectedShape]\<close> that runs \<^verbatim>\<open>setTextures({})\<close>; the
  effect runs when the selected shape has changed.
\<close>

definition handleShapeChange_earlier :: "ShapeType \<Rightarrow> AppState \<Rightarrow> AppState" where
  "handleShapeChange_earlier shape st =
     (if shape = selectedShape st then st\<lparr>selectedShape := shape\<rparr>
      else st\<lparr>selectedShape := shape, textures := []\<rparr>)"

fun setField :: "DimKey \<Rightarrow> jsnum \<Rightarrow> ShapeDimensions \<Rightarrow> ShapeDimensions" where
  "setField Width v prev = prev\<lparr>width := v\<rparr>"
| "setField Height v prev = prev\<lparr>height := v\<rparr>"
| "setField Depth v prev = prev\<lparr>depth := v\<rparr>"
| "setField Diameter v prev = prev\<lparr>diameter := v\<rparr>"

definition handleDimensionChange :: "DimKey \<Rightarrow> jsnum \<Rightarrow> AppState \<Rightarrow> AppState" where
  "handleDimensionChange k v st = st\<lparr>dimensions := setField k v (dimensions st)\<rparr>"

text \<open>
  The \<^verbatim>\<open>onChange\<close> of a \<^verbatim>\<open>NumberInput\<close> of the control panel, on the text of the
  input element, and the edit of one dimension field that the panel wires to it.
\<close>

definition NumberInput_onChange :: "(jsnum \<Rightarrow> 's \<Rightarrow> 's) \<Rightarrow> string \<Rightarrow> 's \<Rightarrow> 's" where
  "NumberInput_onChange onChange text st =
     (let val = parseFloat text in if \<not> isNaN val then onChange val st else st)"

definition editDimension :: "DimKey \<Rightarrow> string \<Rightarrow> AppState \<Rightarrow> AppState" where
  "editDimension k text st = NumberInput_onChange (handleDimensionChange k) text st"

text \<open>The update of the dimensions after an uploaded image has been measured.\<close>

definition deriveUploaded :: "string \<Rightarrow> jsnum \<Rightarrow> ShapeDimensions \<Rightarrow> ShapeDimensions" where
  "deriveUploaded face ratio prev =
     (if face = ''front'' \<or> face = ''back''
        then prev\<lparr>width := round2 (jmul (height prev) ratio)\<rparr>
      else if face = ''left'' \<or> face = ''right''
        then prev\<lparr>depth := round2 (jmul (height prev) ratio)\<rparr>
      else prev)"

text \<open>\<^verbatim>\<open>URL.revokeObjectURL(url)\<close> when the value read from the object is true.\<close>

definition revokeIfBound :: "string option \<Rightarrow> AppState \<Rightarrow> AppState" where
  "revokeIfBound old st =
     (case old of
        Some u \<Rightarrow> if u \<noteq> [] then st\<lparr>revoked := revoked st @ [u]\<rparr> else st
      | None \<Rightarrow> st)"

text \<open>
  \<^verbatim>\<open>handleTextureUpload(face, file)\<close>, from the moment \<^verbatim>\<open>getImageDimensions\<close> has
  settled: \<open>url\<close> is what \<^verbatim>\<open>URL.createObjectURL(file)\<close> returned, and \<open>img\<close> the natural
  width and height of the image, or \<open>None\<close> when the image failed to load. Both state
  updates read the state of that moment.
\<close>

definition handleTextureUpload ::
  "string \<Rightarrow> string \<Rightarrow> (nat \<times> nat) option \<Rightarrow> AppState \<Rightarrow> AppState" where
  "handleTextureUpload face url img st =
     (let st1 =
            (case img of
               Some (w, h) \<Rightarrow>
                 st\<lparr>dimensions := deriveUploaded face (imgRatio w h) (dimensions st)\<rparr>
             | None \<Rightarrow>
                 st\<lparr>warnings := warnings st @
                      [''Could not calculate dimensions from uploaded image'']\<rparr>);
          st2 = revokeIfBound (objGet (textures st1) face) st1
      in st2\<lparr>textures := AList.update face (Some url) (textures st2)\<rparr>)"

definition handleRemoveTexture :: "string \<Rightarrow> AppState \<Rightarrow> AppState" where
  "handleRemoveTexture face st =
     (let st1 = revokeIfBound (objGet (textures st) face) st
      in st1\<lparr>textures := AList.delete face (textures st1)\<rparr>)"

definition handleResetTextures :: "AppState \<Rightarrow> AppState" where
  "handleResetTextures st =
     st\<lparr>revoked := revoked st @ stringValues (textures st), textures := []\<rparr>"

subsection \<open>The remote loader\<close>










subsection \<open>Sessions\<close>

text \<open>What the user does through the control panel, and a session as a list of it.\<close>

datatype Event =
    ShapeChange ShapeType
  | DimensionEdit DimKey string
  | TextureUpload string string "(nat \<times> nat) option"
  | RemoveTexture string
  | ResetTextures

fun step :: "AppState \<Rightarrow> Event \<Rightarrow> AppState" where
  "step st (ShapeChange shape) = handleShapeChange shape st"
| "step st (DimensionEdit k text) = editDimension k text st"
| "step st (TextureUpload face url img) = handleTextureUpload face url img st"
| "step st (RemoveTexture face) = handleRemoveTexture face st"
| "step st ResetTextures = handleResetTextures st"

definition run :: "AppState \<Rightarrow> Event list \<Rightarrow> AppState" where
  "run st evs = foldl step st evs"

text \<open>The handles that the uploads of a session bring in.\<close>

fun uploadUrls :: "Event list \<Rightarrow> string list" where
  "uploadUrls [] = []"
| "uploadUrls (TextureUpload face url img # evs) = url # uploadUrls evs"
| "uploadUrls (e # evs) = uploadUrls evs"

subsection \<open>Vocabulary of the statements\<close>



text \<open>
  The handles a state knows: those bound in the textures and those revoked so far.
\<close>

definition handles :: "AppState \<Rightarrow> string list" where
  "handles st = stringValues (textures st) @ revoked st"

section \<open>The scene: slots of the box\<close>

lemma FaceMaterial_eq:
  "FaceMaterial url att env =
     \<lparr>attach = att, texture = (if truthyStr url then url else None),
      props = getMaterialProps env\<rparr>"
  by (cases url) (simp_all add: FaceMaterial_def TextureMaterial_def)

text \<open>
  C9. The cube binds its six materials to the slots \<open>material-0\<close> to \<open>material-5\<close> in
  the order right, left, top, bottom, front, back: the material of a slot carries the
  texture bound to that face when there is one, and is the plain default material
  otherwise; the box has the three dimensions, scaled.
\<close>

theorem CubeModel_slot_order:
  "materials (CubeModel dims tex env) =
     map (\<lambda>(slot, face).
            \<lparr>attach = Some slot,
             texture = (if truthyStr (objGet tex face) then objGet tex face else None),
             props = getMaterialProps env\<rparr>)
       [(''material-0'', ''right''), (''material-1'', ''left''), (''material-2'', ''top''),
        (''material-3'', ''bottom''), (''material-4'', ''front''), (''material-5'', ''back'')]
   \<and> boxArgs (CubeModel dims tex env) =
       (jmul (width dims) (Fin (1 / 10)), jmul (height dims) (Fin (1 / 10)),
        jmul (depth dims) (Fin (1 / 10)))"
  by (simp add: CubeModel_def FaceMaterial_eq sceneScale_def)

theorem CubeModel_slot_order_witness:
  "materials (CubeModel DEFAULT_DIMENSIONS
      [(''front'', Some ''blob:f''), (''top'', None), (''right'', Some ''blob:r'')] False) =
     [\<lparr>attach = Some ''material-0'', texture = Some ''blob:r'', props = getMaterialProps False\<rparr>,
      \<lparr>attach = Some ''material-1'', texture = None, props = getMaterialProps False\<rparr>,
      \<lparr>attach = Some ''material-2'', texture = None, props = getMaterialProps False\<rparr>,
      \<lparr>attach = Some ''material-3'', texture = None, props = getMaterialProps False\<rparr>,
      \<lparr>attach = Some ''material-4'', texture = Some ''blob:f'', props = getMaterialProps False\<rparr>,
      \<lparr>attach = Some ''material-5'', texture = None, props = getMaterialProps False\<rparr>]"
  using CubeModel_slot_order [of DEFAULT_DIMENSIONS
      "[(''front'', Some ''blob:f''), (''top'', None), (''right'', Some ''blob:r'')]" False]
  by (simp add: objGet_def)

text \<open>
  C8. Whatever the textures hold, a binding of \<open>top\<close> included, the body of the bag has
  the materials of the cube in the same slots, except slot 2 (the top), which is always
  the default material with no texture.
\<close>

theorem BagModel_top_default:
  "materials (BagModel dims tex env) =
     (materials (CubeModel dims tex env))
       [2 := \<lparr>attach = Some ''material-2'', texture = None, props = getMaterialProps env\<rparr>]
   \<and> length (materials (BagModel dims tex env)) = 6
   \<and> texture (materials (BagModel dims tex env) ! 2) = None
   \<and> boxArgs (BagModel dims tex env) = boxArgs (CubeModel dims tex env)"
  by (simp add: BagModel_def CubeModel_def FaceMaterial_eq)

theorem BagModel_top_default_witness:
  "map texture (materials (BagModel DEFAULT_DIMENSIONS
      [(''top'', Some ''blob:t''), (''front'', Some ''blob:f'')] True)) =
     [None, None, None, None, Some ''blob:f'', None]
   \<and> map texture (materials (CubeModel DEFAULT_DIMENSIONS
      [(''top'', Some ''blob:t''), (''front'', Some ''blob:f'')] True)) =
     [None, None, Some ''blob:t'', None, Some ''blob:f'', None]"
  using BagModel_top_default [of DEFAULT_DIMENSIONS
      "[(''top'', Some ''blob:t''), (''front'', Some ''blob:f'')]" True]
  by (simp add: CubeModel_def FaceMaterial_eq objGet_def)

section \<open>Removing a texture\<close>

text \<open>
  C10. Removing the texture of a face deletes the entry of that face, revokes its handle
  (when the entry holds one) and leaves the dimensions and the shape as they are: a width
  derived from the image of that face stays after the image is removed.
\<close>

theorem handleRemoveTexture_frame:
  "dimensions (handleRemoveTexture face st) = dimensions st
   \<and> selectedShape (handleRemoveTexture face st) = selectedShape st
   \<and> textures (handleRemoveTexture face st) = AList.delete face (textures st)
   \<and> map_of (textures (handleRemoveTexture face st)) = (map_of (textures st))(face := None)
   \<and> revoked (handleRemoveTexture face st) =
       revoked st @ (case objGet (textures st) face of
                       Some u \<Rightarrow> if u \<noteq> [] then [u] else []
                     | None \<Rightarrow> [])
   \<and> width (dimensions (handleRemoveTexture ''front''
         (handleTextureUpload ''front'' url (Some (w, h)) st))) =
       round2 (jmul (height (dimensions st)) (imgRatio w h))"
  by (cases "objGet (textures st) face")
     (simp_all add: handleRemoveTexture_def revokeIfBound_def Let_def AList.delete_conv'
        handleTextureUpload_def deriveUploaded_def split: option.splits)

theorem handleRemoveTexture_frame_witness:
  "dimensions (handleRemoveTexture ''front''
      (handleTextureUpload ''front'' ''blob:a'' (Some (200, 100)) initialState)) =
     \<lparr>width = Fin 20, height = Fin 10, depth = Fin 10, diameter = Fin 10\<rparr>
   \<and> textures (handleRemoveTexture ''front''
      (handleTextureUpload ''front'' ''blob:a'' (Some (200, 100)) initialState)) = []
   \<and> revoked (handleRemoveTexture ''front''
      (handleTextureUpload ''front'' ''blob:a'' (Some (200, 100)) initialState)) = [''blob:a'']"
proof -
  have c: "dimensions (handleRemoveTexture ''front''
      (handleTextureUpload ''front'' ''blob:a'' (Some (200, 100)) initialState)) =
     \<lparr>width = Fin 20, height = Fin 10, depth = Fin 10, diameter = Fin 10\<rparr>
   \<and> textures (handleRemoveTexture ''front''
      (handleTextureUpload ''front'' ''blob:a'' (Some (200, 100)) initialState)) = []
   \<and> revoked (handleRemoveTexture ''front''
      (handleTextureUpload ''front'' ''blob:a'' (Some (200, 100)) initialState)) = [''blob:a'']"
    by code_simp
  show ?thesis
    using handleRemoveTexture_frame [of "''front''"
        "handleTextureUpload ''front'' ''blob:a'' (Some (200, 100)) initialState"
        "''blob:a''" 200 100]
    by (simp only: c)
qed

section \<open>Uploading a texture\<close>





text \<open>
  C7, as stated, fails: when the uploaded image cannot be decoded, the face is bound to
  the new URL all the same. Here the image of the upload on \<open>front\<close> fails to load
  (\<open>None\<close>), and \<open>front\<close> holds the URL afterwards.
\<close>

theorem upload_decode_failure_counterexample:
  "objGet (textures (handleTextureUpload ''front'' ''blob:a'' None initialState)) ''front'' =
     Some ''blob:a''"
  by code_simp

text \<open>
  C7, amended. When the uploaded image cannot be decoded, the dimensions stay as they are
  and one warning is logged; the face is bound to the new URL as in a successful upload,
  and the handle that the face held before, if any, is revoked.
\<close>

theorem handleTextureUpload_decode_failure:
  "dimensions (handleTextureUpload face url None st) = dimensions st
   \<and> warnings (handleTextureUpload face url None st) =
       warnings st @ [''Could not calculate dimensions from uploaded image'']
   \<and> textures (handleTextureUpload face url None st) =
       AList.update face (Some url) (textures st)
   \<and> map_of (textures (handleTextureUpload face url None st)) face = Some (Some url)
   \<and> revoked (handleTextureUpload face url None st) =
       revoked st @ (case objGet (textures st) face of
                       Some u \<Rightarrow> if u \<noteq> [] then [u] else []
                     | None \<Rightarrow> [])"
  by (cases "objGet (textures st) face")
     (simp_all add: handleTextureUpload_def Let_def revokeIfBound_def AList.update_conv')

theorem handleTextureUpload_decode_failure_witness:
  "dimensions (handleTextureUpload ''front'' ''blob:b'' None
      (handleTextureUpload ''front'' ''blob:a'' (Some (200, 100)) initialState)) =
     \<lparr>width = Fin 20, height = Fin 10, depth = Fin 10, diameter = Fin 10\<rparr>
   \<and> textures (handleTextureUpload ''front'' ''blob:b'' None
      (handleTextureUpload ''front'' ''blob:a'' (Some (200, 100)) initialState)) =
     [(''front'', Some ''blob:b'')]
   \<and> revoked (handleTextureUpload ''front'' ''blob:b'' None
      (handleTextureUpload ''front'' ''blob:a'' (Some (200, 100)) initialState)) =
     [''blob:a'']"
proof -
  have st: "handleTextureUpload ''front'' ''blob:a'' (Some (200, 100)) initialState =
      initialState\<lparr>dimensions := DEFAULT_DIMENSIONS\<lparr>width := Fin 20\<rparr>,
                   textures := [(''front'', Some ''blob:a'')]\<rparr>"
    by code_simp
  show ?thesis
    using handleTextureUpload_decode_failure [of "''front''" "''blob:b''"
        "initialState\<lparr>dimensions := DEFAULT_DIMENSIONS\<lparr>width := Fin 20\<rparr>,
                      textures := [(''front'', Some ''blob:a'')]\<rparr>"]
    unfolding st
    by (simp add: initialState_def DEFAULT_DIMENSIONS_def objGet_def)
qed

section \<open>Changing the shape\<close>

text \<open>
  C1, as stated, fails: after an upload on \<open>front\<close>, changing the shape to the sphere
  leaves the texture bound and revokes nothing.
\<close>

theorem handleShapeChange_counterexample:
  "textures (handleShapeChange SPHERE
      (handleTextureUpload ''front'' ''blob:a'' (Some (200, 100)) initialState)) =
     [(''front'', Some ''blob:a'')]
   \<and> revoked (handleShapeChange SPHERE
      (handleTextureUpload ''front'' ''blob:a'' (Some (200, 100)) initialState)) = []"
  by code_simp

text \<open>
  C1, amended. Changing the shape replaces the selected shape and nothing else: the
  textures, the dimensions and the log of revoked handles are as before. In the two
  earlier versions of the application, which have the effect on the selected shape, the
  textures become empty when the shape has changed, and the dimensions stay.
\<close>

theorem handleShapeChange_only_shape:
  "handleShapeChange shape st = st\<lparr>selectedShape := shape\<rparr>
   \<and> textures (handleShapeChange shape st) = textures st
   \<and> revoked (handleShapeChange shape st) = revoked st
   \<and> dimensions (handleShapeChange shape st) = dimensions st
   \<and> selectedShape (handleShapeChange_earlier shape st) = shape
   \<and> dimensions (handleShapeChange_earlier shape st) = dimensions st
   \<and> textures (handleShapeChange_earlier shape st) =
       (if shape = selectedShape st then textures st else [])"
  by (simp add: handleShapeChange_def handleShapeChange_earlier_def)

theorem handleShapeChange_only_shape_witness:
  "handleShapeChange BAG (initialState\<lparr>textures := [(''front'', Some ''blob:a'')]\<rparr>) =
     initialState\<lparr>selectedShape := BAG, textures := [(''front'', Some ''blob:a'')]\<rparr>
   \<and> textures (handleShapeChange_earlier BAG
         (initialState\<lparr>textures := [(''front'', Some ''blob:a'')]\<rparr>)) = []
   \<and> textures (handleShapeChange_earlier CUBE
         (initialState\<lparr>textures := [(''front'', Some ''blob:a'')]\<rparr>)) =
       [(''front'', Some ''blob:a'')]"
  using handleShapeChange_only_shape [of BAG
      "initialState\<lparr>textures := [(''front'', Some ''blob:a'')]\<rparr>"]
    handleShapeChange_only_shape [of CUBE
      "initialState\<lparr>textures := [(''front'', Some ''blob:a'')]\<rparr>"]
  by (simp add: initialState_def)

section \<open>Editing a dimension\<close>




section \<open>The remote loader\<close>






























section \<open>Which face decides the width and the depth\<close>




section \<open>The batch of the remote loader\<close>



section \<open>Handles are revoked at most once\<close>

text \<open>
  The strings held in the textures, under an update and under a deletion of one key.
\<close>

lemma stringValues_Cons:
  "stringValues ((k, v) # t) = (case v of None \<Rightarrow> [] | Some u \<Rightarrow> [u]) @ stringValues t"
  by (simp add: stringValues_def)

lemma stringValues_Nil: "stringValues [] = []"
  by (simp add: stringValues_def)

lemma objGet_in_values: "objGet t k = Some old \<Longrightarrow> old \<in> set (stringValues t)"
proof (induction t)
  case Nil
  then show ?case by (simp add: objGet_def)
next
  case (Cons e t)
  obtain k' v where e: "e = (k', v)" by (cases e)
  show ?case
  proof (cases "k' = k")
    case True
    with Cons.prems e show ?thesis
      by (simp add: objGet_def stringValues_Cons split: option.splits)
  next
    case False
    with Cons.prems e have "objGet t k = Some old" by (simp add: objGet_def)
    with Cons.IH show ?thesis by (simp add: e stringValues_Cons)
  qed
qed

lemma values_update_subset:
  "set (stringValues (AList.update k (Some u) t)) \<subseteq> insert u (set (stringValues t))"
proof (induction t)
  case Nil
  show ?case by (simp add: stringValues_Cons stringValues_Nil)
next
  case (Cons e t)
  obtain k' v where e: "e = (k', v)" by (cases e)
  from Cons.IH show ?case
    by (cases "k' = k") (auto simp: e stringValues_Cons split: option.splits)
qed

lemma values_update_distinct:
  "distinct (stringValues t) \<Longrightarrow> u \<notin> set (stringValues t) \<Longrightarrow>
   distinct (stringValues (AList.update k (Some u) t))"
proof (induction t)
  case Nil
  show ?case by (simp add: stringValues_Cons stringValues_Nil)
next
  case (Cons e t)
  obtain k' v where e: "e = (k', v)" by (cases e)
  show ?case
  proof (cases "k' = k")
    case True
    with Cons.prems show ?thesis
      by (auto simp: e stringValues_Cons split: option.splits)
  next
    case False
    from Cons.prems have d: "distinct (stringValues t)" and n: "u \<notin> set (stringValues t)"
      by (auto simp: e stringValues_Cons split: option.splits)
    from Cons.IH [OF d n] values_update_subset [of k u t] Cons.prems False
    show ?thesis
      by (auto simp: e stringValues_Cons split: option.splits)
  qed
qed

lemma values_update_drops_old:
  "objGet t k = Some old \<Longrightarrow> distinct (stringValues t) \<Longrightarrow> u \<noteq> old \<Longrightarrow>
   old \<notin> set (stringValues (AList.update k (Some u) t))"
proof (induction t)
  case Nil
  then show ?case by (simp add: objGet_def)
next
  case (Cons e t)
  obtain k' v where e: "e = (k', v)" by (cases e)
  show ?case
  proof (cases "k' = k")
    case True
    with Cons.prems e show ?thesis
      by (auto simp: objGet_def stringValues_Cons split: option.splits)
  next
    case False
    with Cons.prems e have g: "objGet t k = Some old" by (simp add: objGet_def)
    from Cons.prems have d: "distinct (stringValues t)"
      by (auto simp: e stringValues_Cons split: option.splits)
    from objGet_in_values [OF g] Cons.prems(2) have "old \<notin> set (stringValues [e])"
      by (auto simp: e stringValues_Cons stringValues_Nil split: option.splits)
    with Cons.IH [OF g d Cons.prems(3)] False show ?thesis
      by (auto simp: e stringValues_Cons stringValues_Nil split: option.splits)
  qed
qed

lemma values_delete_subset:
  "set (stringValues (AList.delete k t)) \<subseteq> set (stringValues t)"
proof (induction t)
  case Nil
  show ?case by simp
next
  case (Cons e t)
  obtain k' v where e: "e = (k', v)" by (cases e)
  from Cons.IH show ?case
    by (cases "k' = k") (auto simp: e stringValues_Cons split: option.splits)
qed

lemma values_delete_distinct:
  "distinct (stringValues t) \<Longrightarrow> distinct (stringValues (AList.delete k t))"
proof (induction t)
  case Nil
  show ?case by (simp add: stringValues_Nil)
next
  case (Cons e t)
  obtain k' v where e: "e = (k', v)" by (cases e)
  from Cons.prems have d: "distinct (stringValues t)"
    by (auto simp: e stringValues_Cons split: option.splits)
  from Cons.IH [OF d] values_delete_subset [of k t] Cons.prems show ?case
    by (cases "k' = k") (auto simp: e stringValues_Cons split: option.splits)
qed

lemma values_delete_drops_old:
  "objGet t k = Some old \<Longrightarrow> distinct (stringValues t) \<Longrightarrow>
   old \<notin> set (stringValues (AList.delete k t))"
proof (induction t)
  case Nil
  then show ?case by (simp add: objGet_def)
next
  case (Cons e t)
  obtain k' v where e: "e = (k', v)" by (cases e)
  show ?case
  proof (cases "k' = k")
    case True
    with Cons.prems e values_delete_subset [of k t] show ?thesis
      by (auto simp: objGet_def stringValues_Cons split: option.splits)
  next
    case False
    with Cons.prems e have g: "objGet t k = Some old" by (simp add: objGet_def)
    from Cons.prems have d: "distinct (stringValues t)"
      by (auto simp: e stringValues_Cons split: option.splits)
    from objGet_in_values [OF g] Cons.prems(2) have "old \<notin> set (stringValues [e])"
      by (auto simp: e stringValues_Cons stringValues_Nil split: option.splits)
    with Cons.IH [OF g d] False show ?thesis
      by (auto simp: e stringValues_Cons stringValues_Nil split: option.splits)
  qed
qed


lemma revokeIfBound_textures: "textures (revokeIfBound old st) = textures st"
  by (simp add: revokeIfBound_def split: option.splits)

lemma upload_textures:
  "textures (handleTextureUpload face url img st) = AList.update face (Some url) (textures st)"
  by (simp add: handleTextureUpload_def Let_def revokeIfBound_textures split: option.splits)

lemma upload_revoked:
  "revoked (handleTextureUpload face url img st) =
     revoked st @ (case objGet (textures st) face of
                     Some u \<Rightarrow> if u \<noteq> [] then [u] else []
                   | None \<Rightarrow> [])"
  by (simp add: handleTextureUpload_def Let_def revokeIfBound_def split: option.splits)

lemma remove_textures:
  "textures (handleRemoveTexture face st) = AList.delete face (textures st)"
  by (simp add: handleRemoveTexture_def Let_def revokeIfBound_textures)

lemma remove_revoked:
  "revoked (handleRemoveTexture face st) =
     revoked st @ (case objGet (textures st) face of
                     Some u \<Rightarrow> if u \<noteq> [] then [u] else []
                   | None \<Rightarrow> [])"
  by (simp add: handleRemoveTexture_def Let_def revokeIfBound_def split: option.splits)

lemma edit_handles:
  "textures (editDimension k text st) = textures st"
  "revoked (editDimension k text st) = revoked st"
  by (simp_all add: editDimension_def NumberInput_onChange_def handleDimensionChange_def Let_def)

lemma step_handles_subset:
  "set (handles (step st e)) \<subseteq> set (handles st) \<union> set (uploadUrls [e])"
proof (cases e)
  case (TextureUpload face url img)
  from values_update_subset [of face url "textures st"] objGet_in_values [of "textures st" face]
  show ?thesis
    by (auto simp: TextureUpload handles_def upload_textures upload_revoked
          split: option.splits if_splits)
next
  case (RemoveTexture face)
  from values_delete_subset [of face "textures st"] objGet_in_values [of "textures st" face]
  show ?thesis
    by (auto simp: RemoveTexture handles_def remove_textures remove_revoked
          split: option.splits if_splits)
qed (auto simp: handles_def handleShapeChange_def edit_handles handleResetTextures_def
       stringValues_Nil)

lemma step_handles_distinct:
  assumes d: "distinct (handles st)"
    and f: "set (uploadUrls [e]) \<inter> set (handles st) = {}"
  shows "distinct (handles (step st e))"
proof (cases e)
  case (TextureUpload face url img)
  from d f have dv: "distinct (stringValues (textures st))"
    and nv: "url \<notin> set (stringValues (textures st))"
    and nr: "url \<notin> set (revoked st)"
    and dr: "distinct (revoked st)"
    and vr: "set (stringValues (textures st)) \<inter> set (revoked st) = {}"
    by (auto simp: TextureUpload handles_def)
  note du = values_update_distinct [OF dv nv, of face]
  note su = values_update_subset [of face url "textures st"]
  show ?thesis
  proof (cases "objGet (textures st) face")
    case None
    with du su dr vr nr show ?thesis
      by (auto simp: TextureUpload handles_def upload_textures upload_revoked)
  next
    case (Some old)
    from objGet_in_values [OF Some] nv have ne: "url \<noteq> old" by auto
    from objGet_in_values [OF Some] vr have no: "old \<notin> set (revoked st)" by auto
    note values_update_drops_old [OF Some dv ne]
    with du su dr vr nr no show ?thesis
      by (auto simp: TextureUpload handles_def upload_textures upload_revoked Some)
  qed
next
  case (RemoveTexture face)
  from d have dv: "distinct (stringValues (textures st))"
    and dr: "distinct (revoked st)"
    and vr: "set (stringValues (textures st)) \<inter> set (revoked st) = {}"
    by (auto simp: handles_def)
  note dd = values_delete_distinct [OF dv, of face]
  note sd = values_delete_subset [of face "textures st"]
  show ?thesis
  proof (cases "objGet (textures st) face")
    case None
    with dd sd dr vr show ?thesis
      by (auto simp: RemoveTexture handles_def remove_textures remove_revoked)
  next
    case (Some old)
    from objGet_in_values [OF Some] vr have no: "old \<notin> set (revoked st)" by auto
    note values_delete_drops_old [OF Some dv]
    with dd sd dr vr no show ?thesis
      by (auto simp: RemoveTexture handles_def remove_textures remove_revoked Some)
  qed
next
  case ResetTextures
  with d show ?thesis
    by (auto simp: handles_def handleResetTextures_def stringValues_Nil)
qed (use d in \<open>auto simp: handles_def handleShapeChange_def edit_handles\<close>)


lemma run_append: "run st (evs @ evs') = run (run st evs) evs'"
  by (simp add: run_def)

lemma run_Cons: "run st (e # evs) = run (step st e) evs"
  by (simp add: run_def)

lemma run_single: "run st [e] = step st e"
  by (simp add: run_def)

lemma uploadUrls_Cons: "uploadUrls (e # evs) = uploadUrls [e] @ uploadUrls evs"
  by (cases e) simp_all

lemma uploadUrls_append: "uploadUrls (evs @ evs') = uploadUrls evs @ uploadUrls evs'"
proof (induction evs)
  case Nil
  show ?case by simp
next
  case (Cons e evs)
  then show ?case
    by (simp add: uploadUrls_Cons [of e "evs @ evs'"] uploadUrls_Cons [of e evs])
qed

lemma run_handles_subset:
  "set (handles (run st evs)) \<subseteq> set (handles st) \<union> set (uploadUrls evs)"
proof (induction evs arbitrary: st)
  case Nil
  show ?case by (simp add: run_def)
next
  case (Cons e evs)
  from Cons.IH [of "step st e"] step_handles_subset [of st e]
  show ?case
    by (auto simp: run_Cons uploadUrls_Cons [of e evs])
qed

lemma run_handles_distinct:
  "distinct (handles st) \<Longrightarrow> distinct (uploadUrls evs) \<Longrightarrow>
   set (uploadUrls evs) \<inter> set (handles st) = {} \<Longrightarrow> distinct (handles (run st evs))"
proof (induction evs arbitrary: st)
  case Nil
  then show ?case by (simp add: run_def)
next
  case (Cons e evs)
  from Cons.prems have u: "distinct (uploadUrls [e])" "distinct (uploadUrls evs)"
    "set (uploadUrls [e]) \<inter> set (uploadUrls evs) = {}"
    "set (uploadUrls [e]) \<inter> set (handles st) = {}"
    "set (uploadUrls evs) \<inter> set (handles st) = {}"
    by (auto simp: uploadUrls_Cons [of e evs])
  have d: "distinct (handles (step st e))"
    by (rule step_handles_distinct [OF Cons.prems(1) u(4)])
  from step_handles_subset [of st e] u have
    f: "set (uploadUrls evs) \<inter> set (handles (step st e)) = {}" by blast
  from Cons.IH [OF d u(2) f] show ?case by (simp add: run_Cons)
qed

lemma step_revoked_grows: "\<exists>ys. revoked (step st e) = revoked st @ ys"
  by (cases e)
     (simp_all add: handleShapeChange_def edit_handles upload_revoked remove_revoked
        handleResetTextures_def)

lemma run_revoked_grows: "\<exists>ys. revoked (run st evs) = revoked st @ ys"
proof (induction evs arbitrary: st)
  case Nil
  show ?case by (simp add: run_def)
next
  case (Cons e evs)
  from step_revoked_grows [of st e] obtain ys where a: "revoked (step st e) = revoked st @ ys" ..
  from Cons.IH [of "step st e"] obtain zs where
    b: "revoked (run (step st e) evs) = revoked (step st e) @ zs" ..
  from a b show ?case by (simp add: run_Cons)
qed

lemma count_list_distinct: "distinct xs \<Longrightarrow> x \<in> set xs \<Longrightarrow> count_list xs x = 1"
  by (induction xs) auto

text \<open>
  C6, as stated, fails in its clause on validity: the rebind revokes the old handle also
  when the new image could not be decoded. Here \<open>front\<close> holds \<open>blob:a\<close>, the upload of
  \<open>blob:b\<close> on \<open>front\<close> fails to decode (\<open>None\<close>), and \<open>blob:a\<close> is revoked all the same,
  with \<open>blob:b\<close> bound in its place.
\<close>

theorem rebind_unconfirmed_counterexample:
  "revoked (run initialState
      [TextureUpload ''front'' ''blob:a'' (Some (200, 100)),
       TextureUpload ''front'' ''blob:b'' None]) = [''blob:a'']
   \<and> objGet (textures (run initialState
      [TextureUpload ''front'' ''blob:a'' (Some (200, 100)),
       TextureUpload ''front'' ''blob:b'' None])) ''front'' = Some ''blob:b''"
  by code_simp

text \<open>
  C6, amended. In a session of shape changes, dimension edits, uploads, removals and
  resets, started in a state whose handles are pairwise distinct and in which every upload
  brings a handle of its own (as \<^verbatim>\<open>URL.createObjectURL\<close> gives), an upload on a face
  that holds a handle \<open>old\<close> revokes \<open>old\<close>, and nothing else, in the state update that
  binds the new handle; this happens once the attempt to decode the new image has
  settled, whether it succeeded or failed. After the rebind \<open>old\<close> has been revoked
  exactly once and the new handle not at all; at the end of the session \<open>old\<close> has still
  been revoked exactly once, and no handle has been revoked twice.
\<close>

theorem rebind_releases_old_once:
  assumes inv: "distinct (handles st)"
    and fresh: "distinct (uploadUrls (evs1 @ TextureUpload face new img # evs2))"
    and disj: "set (uploadUrls (evs1 @ TextureUpload face new img # evs2)) \<inter> set (handles st) = {}"
    and bound: "objGet (textures (run st evs1)) face = Some old"
    and truthy: "old \<noteq> []"
  shows "revoked (run st (evs1 @ [TextureUpload face new img])) = revoked (run st evs1) @ [old]
     \<and> objGet (textures (run st (evs1 @ [TextureUpload face new img]))) face = Some new
     \<and> count_list (revoked (run st (evs1 @ [TextureUpload face new img]))) old = 1
     \<and> count_list (revoked (run st (evs1 @ [TextureUpload face new img]))) new = 0
     \<and> count_list (revoked (run st (evs1 @ TextureUpload face new img # evs2))) old = 1
     \<and> count_list (revoked (run st (evs1 @ TextureUpload face new img # evs2))) new \<le> 1
     \<and> distinct (revoked (run st (evs1 @ TextureUpload face new img # evs2)))"
proof -
  let ?e = "TextureUpload face new img"
  let ?s1 = "run st evs1"
  let ?s2 = "run st (evs1 @ [?e])"
  let ?s3 = "run st (evs1 @ ?e # evs2)"
  have s2: "?s2 = handleTextureUpload face new img ?s1"
    by (simp add: run_append run_single)
  have s3: "?s3 = run ?s2 evs2"
    by (simp add: run_def)
  have r2: "revoked ?s2 = revoked ?s1 @ [old]"
    using bound truthy by (simp add: s2 upload_revoked)
  have g2: "objGet (textures ?s2) face = Some new"
    by (simp add: s2 upload_textures objGet_def AList.update_conv')
  from fresh disj have f2: "distinct (uploadUrls (evs1 @ [?e]))"
    "set (uploadUrls (evs1 @ [?e])) \<inter> set (handles st) = {}"
    by (auto simp: uploadUrls_append uploadUrls_Cons [of ?e evs2])
  have d2: "distinct (handles ?s2)"
    by (rule run_handles_distinct [OF inv f2])
  have d3: "distinct (handles ?s3)"
    by (rule run_handles_distinct [OF inv fresh disj])
  from d2 have dr2: "distinct (revoked ?s2)" by (simp add: handles_def)
  from d3 have dr3: "distinct (revoked ?s3)" by (simp add: handles_def)
  from g2 have "new \<in> set (stringValues (textures ?s2))" by (rule objGet_in_values)
  with d2 have n2: "new \<notin> set (revoked ?s2)" by (auto simp: handles_def)
  from r2 have o2: "old \<in> set (revoked ?s2)" by simp
  from run_revoked_grows [of ?s2 evs2] obtain ys where "revoked ?s3 = revoked ?s2 @ ys"
    unfolding s3 ..
  with o2 have o3: "old \<in> set (revoked ?s3)" by simp
  have c1: "count_list (revoked ?s2) old = 1" by (rule count_list_distinct [OF dr2 o2])
  have c2: "count_list (revoked ?s2) new = 0" using n2 by (simp add: count_list_0_iff)
  have c3: "count_list (revoked ?s3) old = 1" by (rule count_list_distinct [OF dr3 o3])
  have c4: "count_list (revoked ?s3) new \<le> 1"
    using count_list_distinct [OF dr3, of new] by (cases "new \<in> set (revoked ?s3)") (simp_all add: count_list_0_iff)
  from r2 g2 c1 c2 c3 c4 dr3 show ?thesis by blast
qed

theorem rebind_releases_old_once_witness:
  "revoked (run initialState
      ([TextureUpload ''front'' ''blob:a'' (Some (200, 100))] @
       [TextureUpload ''front'' ''blob:b'' None])) = [''blob:a'']
   \<and> count_list (revoked (run initialState
      ([TextureUpload ''front'' ''blob:a'' (Some (200, 100))] @
       TextureUpload ''front'' ''blob:b'' None #
       [RemoveTexture ''front'', TextureUpload ''front'' ''blob:c'' (Some (1, 1)),
        ResetTextures]))) ''blob:a'' = 1
   \<and> distinct (revoked (run initialState
      ([TextureUpload ''front'' ''blob:a'' (Some (200, 100))] @
       TextureUpload ''front'' ''blob:b'' None #
       [RemoveTexture ''front'', TextureUpload ''front'' ''blob:c'' (Some (1, 1)),
        ResetTextures])))"
proof -
  have inv: "distinct (handles initialState)"
    by (simp add: handles_def initialState_def stringValues_Nil)
  have fresh: "distinct (uploadUrls
      ([TextureUpload ''front'' ''blob:a'' (Some (200, 100))] @
       TextureUpload ''front'' ''blob:b'' None #
       [RemoveTexture ''front'', TextureUpload ''front'' ''blob:c'' (Some (1, 1)),
        ResetTextures]))"
    by simp
  have disj: "set (uploadUrls
      ([TextureUpload ''front'' ''blob:a'' (Some (200, 100))] @
       TextureUpload ''front'' ''blob:b'' None #
       [RemoveTexture ''front'', TextureUpload ''front'' ''blob:c'' (Some (1, 1)),
        ResetTextures])) \<inter> set (handles initialState) = {}"
    by (simp add: handles_def initialState_def stringValues_Nil)
  have bound: "objGet (textures (run initialState
      [TextureUpload ''front'' ''blob:a'' (Some (200, 100))])) ''front'' = Some ''blob:a''"
    by code_simp
  have r1: "revoked (run initialState
      [TextureUpload ''front'' ''blob:a'' (Some (200, 100))]) = []"
    by code_simp
  have truthy: "''blob:a'' \<noteq> []" by simp
  from rebind_releases_old_once [OF inv fresh disj bound truthy]
  show ?thesis by (simp add: r1)
qed

end
